theory Spec2Isabelle
  imports Complex_Main
begin

section \<open>Errors and Python values\<close>

text \<open>
  The interpreter is a Python program. Every exception the source can raise is a value of
  \<open>error\<close>: its own \<open>LexerError\<close>, \<open>ParserError\<close> and \<open>SemanticError\<close>
  classes, the generic \<open>Exception\<close> raised with a message, and the built-in exceptions
  of the Python runtime that the code can run into (reading an attribute a node does not
  have, comparing \<open>None\<close> with a number, dividing by zero, and so on).
  \<open>NotModelled\<close> is no exception of Python: it marks the one operation the embedding
  leaves out, the conversion of a string to a float by \<open>float(s)\<close>.
\<close>

datatype ErrorCode = UNEXPECTED_TOKEN | ID_NOT_FOUND | DUPLICATE_ID

datatype token_type =
    PLUS | MINUS | MUL | FLOAT_DIV | LPAREN | RPAREN | SEMI | DOT | COLON | COMMA
  | LESS | LESSEQUAL | NOTEQUAL | GREATER | GREATEREQUAL | EQUAL | LBRACK | RBRACK | QUOTE
  | PROGRAM | INTEGER | REAL | CHAR_KW | INTEGER_DIV | VAR | PROCEDURE | BEGIN | AND | ARRAY
  | MOD | DO | ELSE | IF | NOT | OF | OR | ORD | READ | READLN | THEN | WHILE | WRITE
  | WRITELN | END
  | ID | INTEGER_CONST | REAL_CONST | STRING_CONST | CHAR_CONST | ASSIGN | EOF

text \<open>
  A Python value as the program handles it: \<open>None\<close>, an unbounded integer, a float,
  a string and a member of the enumeration \<open>TokenType\<close>. A float is modelled by the
  real number it stands for; the rounding of double precision, infinities and NaN are
  outside the model.
\<close>

datatype pyval = PNone | PInt int | PFloat real | PStr string | PEnum token_type

record token =
  ttype :: token_type
  tvalue :: pyval
  tlineno :: "nat option"
  tcolumn :: "nat option"

datatype error =
    LexerError char nat nat
  | ParserError ErrorCode token
  | SemanticError ErrorCode token
  | PyException string
  | AttributeError
  | TypeError
  | NameError
  | UnboundLocalError
  | ValueError
  | IndexError
  | ZeroDivisionError
  | NotModelled

text \<open>
  A computation of the source either raises (\<open>Inl\<close>), returns (\<open>Inr\<close>) or does not
  return at all; the last is the value \<open>None\<close> of the option type around the sum.
\<close>

type_synonym 'a res = "(error + 'a) option"

definition ret :: "'a \<Rightarrow> 'a res" where
  "ret x = Some (Inr x)"

definition raise :: "error \<Rightarrow> 'a res" where
  "raise e = Some (Inl e)"

definition bindR :: "'a res \<Rightarrow> ('a \<Rightarrow> 'b res) \<Rightarrow> 'b res" where
  "bindR m f = (case m of None \<Rightarrow> None | Some (Inl e) \<Rightarrow> Some (Inl e) | Some (Inr x) \<Rightarrow> f x)"

section \<open>Lexer\<close>

text \<open>
  The source text is a Python string. The embedding covers ASCII text: the character
  classes below are those of \<open>str.isspace\<close>, \<open>str.isdigit\<close>, \<open>str.isalpha\<close>,
  \<open>str.isalnum\<close> and \<open>str.upper\<close> on the ASCII range.
\<close>

definition isspace :: "char \<Rightarrow> bool" where
  "isspace c = (let n = (of_char c :: nat) in (9 \<le> n \<and> n \<le> 13) \<or> (28 \<le> n \<and> n \<le> 32))"

definition isdigit :: "char \<Rightarrow> bool" where
  "isdigit c = (let n = (of_char c :: nat) in 48 \<le> n \<and> n \<le> 57)"

definition isalpha :: "char \<Rightarrow> bool" where
  "isalpha c = (let n = (of_char c :: nat) in (65 \<le> n \<and> n \<le> 90) \<or> (97 \<le> n \<and> n \<le> 122))"

definition isalnum :: "char \<Rightarrow> bool" where
  "isalnum c = (isalpha c \<or> isdigit c)"

definition upper_char :: "char \<Rightarrow> char" where
  "upper_char c =
     (case map_of (zip ''abcdefghijklmnopqrstuvwxyz'' ''ABCDEFGHIJKLMNOPQRSTUVWXYZ'') c of
        None \<Rightarrow> c | Some u \<Rightarrow> u)"

definition upper :: "string \<Rightarrow> string" where
  "upper s = map upper_char s"

definition digit_val :: "char \<Rightarrow> int" where
  "digit_val c = int (of_char c) - 48"

text \<open>\<open>int(result)\<close> on a string of decimal digits; the empty string raises.\<close>

definition digits_val :: "string \<Rightarrow> int" where
  "digits_val s = foldl (\<lambda>a c. 10 * a + digit_val c) 0 s"

definition py_int :: "string \<Rightarrow> error + int" where
  "py_int s = (if s = [] \<or> \<not> list_all isdigit s then Inl ValueError else Inr (digits_val s))"

text \<open>
  \<open>float(result)\<close> on the strings \<open>number\<close> builds: digits, a dot, digits. A string
  with no digit at all raises.
\<close>

definition py_float_lit :: "string \<Rightarrow> string \<Rightarrow> error + real" where
  "py_float_lit ip fp =
     (if (ip = [] \<and> fp = []) \<or> \<not> list_all isdigit ip \<or> \<not> list_all isdigit fp
      then Inl ValueError
      else Inr (real_of_int (digits_val ip) + real_of_int (digits_val fp) / 10 ^ length fp))"

definition RESERVED_KEYWORDS :: "(string \<times> token_type) list" where
  "RESERVED_KEYWORDS =
     [(''PROGRAM'', PROGRAM), (''INTEGER'', INTEGER), (''REAL'', REAL), (''CHAR'', CHAR_KW),
      (''DIV'', INTEGER_DIV), (''VAR'', VAR), (''PROCEDURE'', PROCEDURE), (''BEGIN'', BEGIN),
      (''AND'', AND), (''ARRAY'', ARRAY), (''MOD'', MOD), (''DO'', DO), (''ELSE'', ELSE),
      (''IF'', IF), (''NOT'', NOT), (''OF'', OF), (''OR'', OR), (''ORD'', ORD),
      (''READ'', READ), (''READLN'', READLN), (''THEN'', THEN), (''WHILE'', WHILE),
      (''WRITE'', WRITE), (''WRITELN'', WRITELN), (''END'', END)]"

text \<open>\<open>TokenType(self.current_char)\<close>: the enum members whose value is one character.\<close>

definition single_char_token :: "char \<Rightarrow> token_type option" where
  "single_char_token c =
     map_of [(CHR ''+'', PLUS), (CHR ''-'', MINUS), (CHR ''*'', MUL), (CHR ''/'', FLOAT_DIV),
             (CHR ''('', LPAREN), (CHR '')'', RPAREN), (CHR '';'', SEMI), (CHR ''.'', DOT),
             (CHR '':'', COLON), (CHR '','', COMMA), (CHR ''<'', LESS), (CHR ''>'', GREATER),
             (CHR ''='', EQUAL), (CHR ''['', LBRACK), (CHR '']'', RBRACK),
             (CHR 0x27, QUOTE)] c"

record Lexer =
  quote_count :: nat
  input_text :: string
  pos :: nat
  current_char :: "char option"
  lineno :: nat
  column :: nat

text \<open>\<open>Lexer.__init__\<close>: \<open>self.text[0]\<close> raises on the empty text.\<close>

definition Lexer_init :: "string \<Rightarrow> error + Lexer" where
  "Lexer_init txt =
     (case txt of
        [] \<Rightarrow> Inl IndexError
      | c # _ \<Rightarrow> Inr \<lparr>quote_count = 0, input_text = txt, pos = 0, current_char = Some c,
                      lineno = 1, column = 1\<rparr>)"

definition advance :: "Lexer \<Rightarrow> Lexer" where
  "advance lx =
     (let lx1 = (if current_char lx = Some (CHR 0x0A)
                 then lx\<lparr>lineno := lineno lx + 1, column := 0\<rparr> else lx);
          p = pos lx1 + 1
      in if p > length (input_text lx1) - 1
         then lx1\<lparr>pos := p, current_char := None\<rparr>
         else lx1\<lparr>pos := p, current_char := Some (input_text lx1 ! p),
                   column := column lx1 + 1\<rparr>)"

definition look_at_next_char :: "Lexer \<Rightarrow> char option" where
  "look_at_next_char lx =
     (let p = pos lx + 1
      in if p > length (input_text lx) - 1 then None else Some (input_text lx ! p))"

text \<open>
  The loops of the lexer that test for the end of input terminate: the number of
  characters left goes down with every \<open>advance\<close>.
\<close>

definition chars_left :: "Lexer \<Rightarrow> nat" where
  "chars_left lx = (case current_char lx of None \<Rightarrow> 0 | Some _ \<Rightarrow> Suc (length (input_text lx) - pos lx))"

function skip_whitespace :: "Lexer \<Rightarrow> Lexer" where
  "skip_whitespace lx =
     (case current_char lx of
        None \<Rightarrow> lx
      | Some c \<Rightarrow> if isspace c then skip_whitespace (advance lx) else lx)"
  by pat_completeness auto
termination
  by (relation "measure chars_left") (auto simp: chars_left_def advance_def Let_def)

declare skip_whitespace.simps [simp del]

text \<open>
  \<open>skip_comment\<close> does not test for the end of input: \<open>while self.current_char != '}'\<close>
  also holds for \<open>None\<close>. Whether it returns depends on the text, so it is a partial
  function.
\<close>

partial_function (option) skip_comment :: "Lexer \<Rightarrow> Lexer option" where
  "skip_comment lx =
     (if current_char lx \<noteq> Some (CHR ''}'') then skip_comment (advance lx)
      else Some (advance lx))"

text \<open>The loop \<open>while c is not None and pred(c): result += c; advance()\<close>.\<close>

function take_while :: "(char \<Rightarrow> bool) \<Rightarrow> string \<Rightarrow> Lexer \<Rightarrow> string \<times> Lexer" where
  "take_while pred result lx =
     (case current_char lx of
        None \<Rightarrow> (result, lx)
      | Some c \<Rightarrow> if pred c then take_while pred (result @ [c]) (advance lx) else (result, lx))"
  by pat_completeness auto
termination
  by (relation "measure (\<lambda>(pred, result, lx). chars_left lx)")
    (auto simp: chars_left_def advance_def Let_def)

declare take_while.simps [simp del]

definition number :: "Lexer \<Rightarrow> error + token \<times> Lexer" where
  "number lx =
     (let ln = lineno lx; col = column lx;
          (ip, lx1) = take_while isdigit [] lx
      in if current_char lx1 = Some (CHR ''.'') \<and> \<not> (look_at_next_char lx1 = Some (CHR ''.''))
         then (let (fp, lx2) = take_while isdigit [] (advance lx1)
               in case py_float_lit ip fp of
                    Inl e \<Rightarrow> Inl e
                  | Inr r \<Rightarrow> Inr (\<lparr>ttype = REAL_CONST, tvalue = PFloat r,
                                     tlineno = Some ln, tcolumn = Some col\<rparr>, lx2))
         else (case py_int ip of
                 Inl e \<Rightarrow> Inl e
               | Inr n \<Rightarrow> Inr (\<lparr>ttype = INTEGER_CONST, tvalue = PInt n,
                                  tlineno = Some ln, tcolumn = Some col\<rparr>, lx1)))"

text \<open>
  \<open>string_builder\<close> returns a token only when it finds the closing quote; otherwise the
  Python function falls off its end and returns \<open>None\<close>.
\<close>

definition string_builder :: "Lexer \<Rightarrow> token option \<times> Lexer" where
  "string_builder lx =
     (let ln = lineno lx; col = column lx;
          (result, lx1) = take_while (\<lambda>c. c \<noteq> CHR 0x27) [] lx
      in if current_char lx1 = Some (CHR 0x27)
         then (Some \<lparr>ttype = STRING_CONST, tvalue = PStr result,
                      tlineno = Some ln, tcolumn = Some col\<rparr>,
               (advance lx1)\<lparr>quote_count := 0\<rparr>)
         else (None, lx1))"

definition id_token :: "Lexer \<Rightarrow> token \<times> Lexer" where
  "id_token lx =
     (let ln = lineno lx; col = column lx;
          (v, lx1) = take_while isalnum [] lx
      in case map_of RESERVED_KEYWORDS (upper v) of
           None \<Rightarrow> (\<lparr>ttype = ID, tvalue = PStr v, tlineno = Some ln, tcolumn = Some col\<rparr>, lx1)
         | Some tt \<Rightarrow> (\<lparr>ttype = tt, tvalue = PStr (upper v),
                          tlineno = Some ln, tcolumn = Some col\<rparr>, lx1))"

definition EOF_token :: token where
  "EOF_token = \<lparr>ttype = EOF, tvalue = PNone, tlineno = None, tcolumn = None\<rparr>"

partial_function (option) get_next_token :: "Lexer \<Rightarrow> (error + token option \<times> Lexer) option" where
  "get_next_token lx =
     (case current_char lx of
        None \<Rightarrow> Some (Inr (Some EOF_token, lx))
      | Some c \<Rightarrow>
          if c = CHR '':'' \<and> look_at_next_char lx = Some (CHR ''='')
          then Some (Inr (Some \<lparr>ttype = ASSIGN, tvalue = PStr '':='',
                                 tlineno = Some (lineno lx), tcolumn = Some (column lx)\<rparr>,
                          advance (advance lx)))
          else if isspace c then get_next_token (skip_whitespace lx)
          else if c = CHR 0x27 then Some (Inr (string_builder ((advance lx)\<lparr>quote_count := 1\<rparr>)))
          else if c = CHR ''{'' then Option.bind (skip_comment (advance lx)) get_next_token
          else if isalpha c then Some (Inr (case id_token lx of (t, lx') \<Rightarrow> (Some t, lx')))
          else if isdigit c
          then Some (case number lx of Inl e \<Rightarrow> Inl e | Inr (t, lx') \<Rightarrow> Inr (Some t, lx'))
          else (case single_char_token c of
                  None \<Rightarrow> Some (Inl (LexerError c (lineno lx) (column lx)))
                | Some tt \<Rightarrow> Some (Inr (Some \<lparr>ttype = tt, tvalue = PStr [c],
                                               tlineno = Some (lineno lx),
                                               tcolumn = Some (column lx)\<rparr>,
                                         advance lx))))"

section \<open>Abstract syntax tree\<close>

text \<open>
  One constructor per AST class of the source. \<open>Num\<close>, \<open>Str\<close> and \<open>Var\<close> keep their
  token (their \<open>value\<close> is the token's value); \<open>BinOp\<close> and \<open>UnaryOp\<close> have no
  \<open>value\<close> attribute. The classes \<open>WRITE\<close> and \<open>READ\<close> are \<open>WRITE_node\<close> and
  \<open>READ_node\<close> here, since the token types of the same name exist.
\<close>

datatype expr_node =
    BinOp expr_node token expr_node
  | Num token
  | Str token
  | UnaryOp token expr_node
  | Var token

datatype relation_node = Relation expr_node token expr_node

datatype type_node = Type token | Array pyval pyval pyval

datatype param_node = Param expr_node type_node

datatype read_item = ReadToken token | ReadParam param_node

text \<open>
  A symbol of the semantic analyser. A \<open>ProcedureSymbol\<close> is a mutable object that the
  analyser shares between the symbol table and the \<open>ProcedureCall\<close> nodes: it is stored
  once, under an address, and referred to by that address. \<open>EnumMember\<close> is a member of
  \<open>TokenType\<close> put into a table as it is (by \<open>visit_WRITE\<close> and \<open>visit_READ\<close>).
\<close>

datatype symbol =
    BuiltinTypeSymbol pyval
  | VarSymbol pyval "symbol option"
  | ProcedureSymbol pyval nat
  | IF_Symbol pyval
  | EnumMember token_type

datatype stmt_node =
    Compound "stmt_node list"
  | Assign expr_node token expr_node
  | ProcedureCall pyval "expr_node list" token "symbol option"
  | WRITE_node token_type pyval
  | READ_node token_type "read_item list"
  | IfStatement token_type relation_node stmt_node "stmt_node option"
  | WhileStatement token_type relation_node stmt_node
  | NoOp

datatype decl_node =
    VarDecl expr_node type_node
  | ProcedureDecl pyval "param_node list" block_node
and block_node = Block "decl_node list" stmt_node

datatype program_node = Program pyval block_node

section \<open>Parser\<close>

record Parser =
  lexer :: Lexer
  current_token :: "token option"

text \<open>
  \<open>self.current_token = self.get_next_token()\<close>. The current token is \<open>None\<close> after
  \<open>string_builder\<close> found no closing quote; reading \<open>.type\<close> or \<open>.value\<close> of it
  raises \<open>AttributeError\<close>.
\<close>

definition next_token :: "Parser \<Rightarrow> Parser res" where
  "next_token p =
     (case get_next_token (lexer p) of
        None \<Rightarrow> None
      | Some (Inl e) \<Rightarrow> raise e
      | Some (Inr (t, lx)) \<Rightarrow> ret (p\<lparr>lexer := lx, current_token := t\<rparr>))"

definition Parser_init :: "Lexer \<Rightarrow> Parser res" where
  "Parser_init lx = next_token \<lparr>lexer = lx, current_token = None\<rparr>"

definition with_token :: "Parser \<Rightarrow> (token \<Rightarrow> 'a res) \<Rightarrow> 'a res" where
  "with_token p f = (case current_token p of None \<Rightarrow> raise AttributeError | Some t \<Rightarrow> f t)"

definition eat :: "token_type \<Rightarrow> Parser \<Rightarrow> Parser res" where
  "eat tt p =
     with_token p (\<lambda>t. if ttype t = tt then next_token p
                        else raise (ParserError UNEXPECTED_TOKEN t))"

definition variable :: "Parser \<Rightarrow> (expr_node \<times> Parser) res" where
  "variable p = with_token p (\<lambda>t. bindR (eat ID p) (\<lambda>p1. ret (Var t, p1)))"

text \<open>
  The recursive descent is defined with fuel: every call takes one unit, and a call
  without fuel has no result. The loops \<open>while self.current_token.type in (...)\<close> of
  \<open>expr\<close> and \<open>term\<close> are \<open>expr_loop\<close> and \<open>term_loop\<close>; the method
  \<open>term\<close> is \<open>term_rule\<close>.
\<close>

fun expr :: "nat \<Rightarrow> Parser \<Rightarrow> (expr_node \<times> Parser) res"
  and expr_loop :: "nat \<Rightarrow> expr_node \<Rightarrow> Parser \<Rightarrow> (expr_node \<times> Parser) res"
  and term_rule :: "nat \<Rightarrow> Parser \<Rightarrow> (expr_node \<times> Parser) res"
  and term_loop :: "nat \<Rightarrow> expr_node \<Rightarrow> Parser \<Rightarrow> (expr_node \<times> Parser) res"
  and factor :: "nat \<Rightarrow> Parser \<Rightarrow> (expr_node \<times> Parser) res"
where
  "expr 0 p = None"
| "expr (Suc n) p = bindR (term_rule n p) (\<lambda>(node, p1). expr_loop n node p1)"
| "expr_loop 0 node p = None"
| "expr_loop (Suc n) node p =
     with_token p (\<lambda>t.
       if ttype t = PLUS \<or> ttype t = MINUS
       then bindR (if ttype t = PLUS then eat PLUS p else eat MINUS p) (\<lambda>p1.
            bindR (term_rule n p1) (\<lambda>(r, p2). expr_loop n (BinOp node t r) p2))
       else ret (node, p))"
| "term_rule 0 p = None"
| "term_rule (Suc n) p = bindR (factor n p) (\<lambda>(node, p1). term_loop n node p1)"
| "term_loop 0 node p = None"
| "term_loop (Suc n) node p =
     with_token p (\<lambda>t.
       if ttype t = MUL \<or> ttype t = INTEGER_DIV \<or> ttype t = FLOAT_DIV
       then bindR (if ttype t = MUL then eat MUL p
                   else if ttype t = INTEGER_DIV then eat INTEGER_DIV p
                   else eat FLOAT_DIV p) (\<lambda>p1.
            bindR (factor n p1) (\<lambda>(r, p2). term_loop n (BinOp node t r) p2))
       else ret (node, p))"
| "factor 0 p = None"
| "factor (Suc n) p =
     with_token p (\<lambda>t.
       if ttype t = PLUS
       then bindR (eat PLUS p) (\<lambda>p1. bindR (factor n p1) (\<lambda>(e, p2). ret (UnaryOp t e, p2)))
       else if ttype t = MINUS
       then bindR (eat MINUS p) (\<lambda>p1. bindR (factor n p1) (\<lambda>(e, p2). ret (UnaryOp t e, p2)))
       else if ttype t = INTEGER_CONST
       then bindR (eat INTEGER_CONST p) (\<lambda>p1. ret (Num t, p1))
       else if ttype t = REAL_CONST
       then bindR (eat REAL_CONST p) (\<lambda>p1. ret (Num t, p1))
       else if ttype t = LPAREN
       then bindR (eat LPAREN p) (\<lambda>p1.
            bindR (expr n p1) (\<lambda>(node, p2).
            bindR (eat RPAREN p2) (\<lambda>p3. ret (node, p3))))
       else if ttype t = STRING_CONST
       then bindR (eat STRING_CONST p) (\<lambda>p1. ret (Str t, p1))
       else variable p)"

text \<open>The attribute \<open>value\<close> of an expression node; \<open>BinOp\<close> and \<open>UnaryOp\<close> have none.\<close>

fun node_value :: "expr_node \<Rightarrow> error + pyval" where
  "node_value (Num t) = Inr (tvalue t)"
| "node_value (Str t) = Inr (tvalue t)"
| "node_value (Var t) = Inr (tvalue t)"
| "node_value (BinOp l t r) = Inl AttributeError"
| "node_value (UnaryOp t e) = Inl AttributeError"

definition lift :: "error + 'a \<Rightarrow> 'a res" where
  "lift r = Some r"

text \<open>The loop \<open>while type == COMMA: eat(COMMA); tokens.append(current_token); eat(ID)\<close>.\<close>

fun comma_ids :: "nat \<Rightarrow> token list \<Rightarrow> Parser \<Rightarrow> (token list \<times> Parser) res" where
  "comma_ids 0 toks p = None"
| "comma_ids (Suc n) toks p =
     with_token p (\<lambda>t.
       if ttype t = COMMA
       then bindR (eat COMMA p) (\<lambda>p1.
            with_token p1 (\<lambda>t1.
            bindR (eat ID p1) (\<lambda>p2. comma_ids n (toks @ [t1]) p2)))
       else ret (toks, p))"

definition type_spec :: "Parser \<Rightarrow> (type_node \<times> Parser) res" where
  "type_spec p =
     with_token p (\<lambda>t.
       if ttype t = INTEGER then bindR (eat INTEGER p) (\<lambda>p1. ret (Type t, p1))
       else if ttype t = REAL then bindR (eat REAL p) (\<lambda>p1. ret (Type t, p1))
       else if ttype t = STRING_CONST then bindR (eat STRING_CONST p) (\<lambda>p1. ret (Type t, p1))
       else if ttype t = CHAR_KW then bindR (eat CHAR_KW p) (\<lambda>p1. ret (Type t, p1))
       else if ttype t = ARRAY
       then bindR (eat ARRAY p) (\<lambda>p1.
            bindR (eat LBRACK p1) (\<lambda>p2.
            with_token p2 (\<lambda>start.
            bindR (eat INTEGER_CONST p2) (\<lambda>p3.
            bindR (eat DOT p3) (\<lambda>p4.
            bindR (eat DOT p4) (\<lambda>p5.
            with_token p5 (\<lambda>finish.
            bindR (eat INTEGER_CONST p5) (\<lambda>p6.
            bindR (eat RBRACK p6) (\<lambda>p7.
            bindR (eat OF p7) (\<lambda>p8.
            with_token p8 (\<lambda>t8.
              if ttype t8 = INTEGER
              then bindR (eat INTEGER p8) (\<lambda>p9.
                   ret (Array (tvalue start) (tvalue finish) (PStr ''INTEGER''), p9))
              else raise UnboundLocalError)))))))))))
       else ret (Type t, p))"

definition formal_parameters :: "nat \<Rightarrow> Parser \<Rightarrow> (param_node list \<times> Parser) res" where
  "formal_parameters n p =
     with_token p (\<lambda>t.
       bindR (eat ID p) (\<lambda>p1.
       bindR (comma_ids n [t] p1) (\<lambda>(toks, p2).
       bindR (eat COLON p2) (\<lambda>p3.
       bindR (type_spec p3) (\<lambda>(ty, p4).
       ret (map (\<lambda>tok. Param (Var tok) ty) toks, p4))))))"

fun formal_parameter_loop ::
  "nat \<Rightarrow> param_node list \<Rightarrow> Parser \<Rightarrow> (param_node list \<times> Parser) res" where
  "formal_parameter_loop 0 ps p = None"
| "formal_parameter_loop (Suc n) ps p =
     with_token p (\<lambda>t.
       if ttype t = SEMI
       then bindR (eat SEMI p) (\<lambda>p1.
            bindR (formal_parameters n p1) (\<lambda>(qs, p2). formal_parameter_loop n (ps @ qs) p2))
       else ret (ps, p))"

definition formal_parameter_list :: "nat \<Rightarrow> Parser \<Rightarrow> (param_node list \<times> Parser) res" where
  "formal_parameter_list n p =
     with_token p (\<lambda>t.
       if ttype t \<noteq> ID then ret ([], p)
       else bindR (formal_parameters n p) (\<lambda>(ps, p1). formal_parameter_loop n ps p1))"

definition variable_declaration :: "nat \<Rightarrow> Parser \<Rightarrow> (decl_node list \<times> Parser) res" where
  "variable_declaration n p =
     with_token p (\<lambda>t.
       bindR (eat ID p) (\<lambda>p1.
       bindR (comma_ids n [t] p1) (\<lambda>(toks, p2).
       bindR (eat COLON p2) (\<lambda>p3.
       bindR (type_spec p3) (\<lambda>(ty, p4).
       ret (map (\<lambda>tok. VarDecl (Var tok) ty) toks, p4))))))"

text \<open>
  \<open>get_write_parameter\<close> returns the list \<open>[]\<close> (here \<open>None\<close>) when the current token is
  no string; a semicolon after the string reaches the undefined name \<open>param_nodes\<close>.
  \<open>WRITE.__init__\<close> then reads \<open>tk.value\<close>, which the list does not have.
\<close>

definition get_write_parameter :: "Parser \<Rightarrow> (expr_node option \<times> Parser) res" where
  "get_write_parameter p =
     with_token p (\<lambda>t.
       if ttype t \<noteq> STRING_CONST then ret (None, p)
       else bindR (eat STRING_CONST p) (\<lambda>p1.
            with_token p1 (\<lambda>t1.
              if ttype t1 = SEMI then bindR (eat SEMI p1) (\<lambda>p2. raise NameError)
              else ret (Some (Str t), p1))))"

definition WRITE_init :: "token_type \<Rightarrow> expr_node option \<Rightarrow> stmt_node res" where
  "WRITE_init op tk =
     (case tk of
        None \<Rightarrow> raise AttributeError
      | Some e \<Rightarrow> bindR (lift (node_value e)) (\<lambda>v. ret (WRITE_node op v)))"

definition read_parameters :: "nat \<Rightarrow> Parser \<Rightarrow> (token list \<times> Parser) res" where
  "read_parameters n p =
     with_token p (\<lambda>t. bindR (eat ID p) (\<lambda>p1. comma_ids n [t] p1))"

fun read_parameter_loop ::
  "nat \<Rightarrow> read_item list \<Rightarrow> Parser \<Rightarrow> (read_item list \<times> Parser) res" where
  "read_parameter_loop 0 items p = None"
| "read_parameter_loop (Suc n) items p =
     with_token p (\<lambda>t.
       if ttype t = SEMI
       then bindR (eat SEMI p) (\<lambda>p1.
            bindR (formal_parameters n p1) (\<lambda>(ps, p2).
            read_parameter_loop n (items @ map ReadParam ps) p2))
       else ret (items, p))"

definition get_read_parameter :: "nat \<Rightarrow> Parser \<Rightarrow> (read_item list \<times> Parser) res" where
  "get_read_parameter n p =
     with_token p (\<lambda>t.
       if ttype t \<noteq> ID then ret ([], p)
       else bindR (read_parameters n p) (\<lambda>(toks, p1).
            read_parameter_loop n (map ReadToken toks) p1))"

definition io_read :: "token_type \<Rightarrow> nat \<Rightarrow> Parser \<Rightarrow> (stmt_node \<times> Parser) res" where
  "io_read op n p =
     bindR (eat op p) (\<lambda>p1.
     bindR (eat LPAREN p1) (\<lambda>p2.
     bindR (get_read_parameter n p2) (\<lambda>(items, p3).
     bindR (eat RPAREN p3) (\<lambda>p4. ret (READ_node op items, p4)))))"

definition io_write :: "token_type \<Rightarrow> Parser \<Rightarrow> (stmt_node \<times> Parser) res" where
  "io_write op p =
     bindR (eat op p) (\<lambda>p1.
     bindR (eat LPAREN p1) (\<lambda>p2.
     bindR (get_write_parameter p2) (\<lambda>(tk, p3).
     bindR (WRITE_init op tk) (\<lambda>node.
     bindR (eat RPAREN p3) (\<lambda>p4. ret (node, p4))))))"

definition io_statement :: "nat \<Rightarrow> Parser \<Rightarrow> (stmt_node \<times> Parser) res" where
  "io_statement n p =
     with_token p (\<lambda>t.
       if ttype t = READ then io_read READ n p
       else if ttype t = READLN then io_read READLN n p
       else if ttype t = WRITE then io_write WRITE p
       else if ttype t = WRITELN then io_write WRITELN p
       else raise (PyException ''no match in io_statement''))"

fun actual_param_loop ::
  "nat \<Rightarrow> expr_node list \<Rightarrow> Parser \<Rightarrow> (expr_node list \<times> Parser) res" where
  "actual_param_loop 0 args p = None"
| "actual_param_loop (Suc n) args p =
     with_token p (\<lambda>t.
       if ttype t = COMMA
       then bindR (eat COMMA p) (\<lambda>p1.
            bindR (expr n p1) (\<lambda>(node, p2). actual_param_loop n (args @ [node]) p2))
       else ret (args, p))"

definition proccall_statement :: "nat \<Rightarrow> Parser \<Rightarrow> (stmt_node \<times> Parser) res" where
  "proccall_statement n p =
     with_token p (\<lambda>t.
       bindR (eat ID p) (\<lambda>p1.
       bindR (eat LPAREN p1) (\<lambda>p2.
       with_token p2 (\<lambda>t2.
       bindR (if ttype t2 \<noteq> RPAREN
              then bindR (expr n p2) (\<lambda>(node, p3). ret ([node], p3))
              else ret ([], p2)) (\<lambda>(args, p3).
       bindR (actual_param_loop n args p3) (\<lambda>(actual_params, p4).
       bindR (eat RPAREN p4) (\<lambda>p5.
       ret (ProcedureCall (tvalue t) actual_params t None, p5))))))))"

definition assignment_statement :: "nat \<Rightarrow> Parser \<Rightarrow> (stmt_node \<times> Parser) res" where
  "assignment_statement n p =
     bindR (variable p) (\<lambda>(left, p1).
     with_token p1 (\<lambda>t.
       if tvalue t = PStr ''[''
       then bindR (eat LBRACK p1) (\<lambda>p2.
            bindR (eat INTEGER_CONST p2) (\<lambda>p3.
            bindR (eat RBRACK p3) (\<lambda>p4.
            bindR (eat ASSIGN p4) (\<lambda>p5.
            bindR (expr n p5) (\<lambda>(right, p6). ret (Assign left t right, p6))))))
       else bindR (eat ASSIGN p1) (\<lambda>p2.
            bindR (expr n p2) (\<lambda>(right, p3). ret (Assign left t right, p3)))))"

definition relation_statement :: "nat \<Rightarrow> Parser \<Rightarrow> (relation_node \<times> Parser) res" where
  "relation_statement n p =
     bindR (expr n p) (\<lambda>(left, p1).
     with_token p1 (\<lambda>t.
     bindR (if ttype t = EQUAL then eat EQUAL p1
            else if ttype t = LESS then eat LESS p1
            else if ttype t = GREATER then eat GREATER p1
            else if ttype t = LESSEQUAL then eat LESSEQUAL p1
            else if ttype t = GREATEREQUAL then eat GREATEREQUAL p1
            else if ttype t = AND then eat AND p1
            else if ttype t = OR then eat OR p1
            else raise (PyException ''no match in relation_statement'')) (\<lambda>p2.
     bindR (expr n p2) (\<lambda>(right, p3). ret (Relation left t right, p3)))))"

text \<open>
  \<open>statement\<close> decides between a procedure call and an assignment by the character the
  lexer stands on, \<open>self.lexer.current_char\<close>, not by the next token.
\<close>

fun statement :: "nat \<Rightarrow> Parser \<Rightarrow> (stmt_node \<times> Parser) res"
  and compound_statement :: "nat \<Rightarrow> Parser \<Rightarrow> (stmt_node \<times> Parser) res"
  and statement_list :: "nat \<Rightarrow> Parser \<Rightarrow> (stmt_node list \<times> Parser) res"
  and statement_list_loop ::
    "nat \<Rightarrow> stmt_node list \<Rightarrow> Parser \<Rightarrow> (stmt_node list \<times> Parser) res"
  and while_statement :: "nat \<Rightarrow> Parser \<Rightarrow> (stmt_node \<times> Parser) res"
  and if_statement :: "nat \<Rightarrow> Parser \<Rightarrow> (stmt_node \<times> Parser) res"
where
  "statement 0 p = None"
| "statement (Suc n) p =
     with_token p (\<lambda>t.
       if ttype t = BEGIN then compound_statement n p
       else if ttype t = ID \<and> current_char (lexer p) = Some (CHR ''('')
       then proccall_statement n p
       else if ttype t = ID then assignment_statement n p
       else if ttype t = WRITELN \<or> ttype t = WRITE \<or> ttype t = READ \<or> ttype t = READLN
       then io_statement n p
       else if ttype t = IF then if_statement n p
       else if ttype t = WHILE then while_statement n p
       else ret (NoOp, p))"
| "compound_statement 0 p = None"
| "compound_statement (Suc n) p =
     bindR (eat BEGIN p) (\<lambda>p1.
     bindR (statement_list n p1) (\<lambda>(nodes, p2).
     bindR (eat END p2) (\<lambda>p3. ret (Compound nodes, p3))))"
| "statement_list 0 p = None"
| "statement_list (Suc n) p =
     bindR (statement n p) (\<lambda>(node, p1). statement_list_loop n [node] p1)"
| "statement_list_loop 0 results p = None"
| "statement_list_loop (Suc n) results p =
     with_token p (\<lambda>t.
       if ttype t = SEMI
       then bindR (eat SEMI p) (\<lambda>p1.
            bindR (statement n p1) (\<lambda>(node, p2). statement_list_loop n (results @ [node]) p2))
       else ret (results, p))"
| "while_statement 0 p = None"
| "while_statement (Suc n) p =
     with_token p (\<lambda>t.
       bindR (eat WHILE p) (\<lambda>p1.
       bindR (relation_statement n p1) (\<lambda>(e, p2).
       bindR (eat DO p2) (\<lambda>p3.
       bindR (statement n p3) (\<lambda>(st, p4). ret (WhileStatement (ttype t) e st, p4))))))"
| "if_statement 0 p = None"
| "if_statement (Suc n) p =
     with_token p (\<lambda>t.
       bindR (eat IF p) (\<lambda>p1.
       bindR (relation_statement n p1) (\<lambda>(e, p2).
       bindR (eat THEN p2) (\<lambda>p3.
       bindR (statement n p3) (\<lambda>(st, p4).
       with_token p4 (\<lambda>t4.
         if ttype t4 = ELSE
         then bindR (eat ELSE p4) (\<lambda>p5.
              bindR (statement n p5) (\<lambda>(el, p6). ret (IfStatement (ttype t) e st (Some el), p6)))
         else ret (IfStatement (ttype t) e st None, p4)))))))"

fun var_decl_loop ::
  "nat \<Rightarrow> decl_node list \<Rightarrow> Parser \<Rightarrow> (decl_node list \<times> Parser) res" where
  "var_decl_loop 0 ds p = None"
| "var_decl_loop (Suc n) ds p =
     with_token p (\<lambda>t.
       if ttype t = ID
       then bindR (variable_declaration n p) (\<lambda>(vs, p1).
            bindR (eat SEMI p1) (\<lambda>p2. var_decl_loop n (ds @ vs) p2))
       else ret (ds, p))"

fun block :: "nat \<Rightarrow> Parser \<Rightarrow> (block_node \<times> Parser) res"
  and declarations :: "nat \<Rightarrow> Parser \<Rightarrow> (decl_node list \<times> Parser) res"
  and proc_decl_loop ::
    "nat \<Rightarrow> decl_node list \<Rightarrow> Parser \<Rightarrow> (decl_node list \<times> Parser) res"
  and procedure_declaration :: "nat \<Rightarrow> Parser \<Rightarrow> (decl_node \<times> Parser) res"
where
  "block 0 p = None"
| "block (Suc n) p =
     bindR (declarations n p) (\<lambda>(ds, p1).
     bindR (compound_statement n p1) (\<lambda>(c, p2). ret (Block ds c, p2)))"
| "declarations 0 p = None"
| "declarations (Suc n) p =
     with_token p (\<lambda>t.
       bindR (if ttype t = VAR then bindR (eat VAR p) (\<lambda>p1. var_decl_loop n [] p1)
              else ret ([], p)) (\<lambda>(ds, p2). proc_decl_loop n ds p2))"
| "proc_decl_loop 0 ds p = None"
| "proc_decl_loop (Suc n) ds p =
     with_token p (\<lambda>t.
       if ttype t = PROCEDURE
       then bindR (procedure_declaration n p) (\<lambda>(d, p1). proc_decl_loop n (ds @ [d]) p1)
       else ret (ds, p))"
| "procedure_declaration 0 p = None"
| "procedure_declaration (Suc n) p =
     bindR (eat PROCEDURE p) (\<lambda>p1.
     with_token p1 (\<lambda>t.
     bindR (eat ID p1) (\<lambda>p2.
     with_token p2 (\<lambda>t2.
     bindR (if ttype t2 = LPAREN
            then bindR (eat LPAREN p2) (\<lambda>p3.
                 bindR (formal_parameter_list n p3) (\<lambda>(fps, p4).
                 bindR (eat RPAREN p4) (\<lambda>p5. ret (fps, p5))))
            else ret ([], p2)) (\<lambda>(formal_params, p6).
     bindR (eat SEMI p6) (\<lambda>p7.
     bindR (block n p7) (\<lambda>(b, p8).
     bindR (eat SEMI p8) (\<lambda>p9. ret (ProcedureDecl (tvalue t) formal_params b, p9)))))))))"

definition program :: "nat \<Rightarrow> Parser \<Rightarrow> (program_node \<times> Parser) res" where
  "program n p =
     bindR (eat PROGRAM p) (\<lambda>p1.
     bindR (variable p1) (\<lambda>(var_node, p2).
     bindR (lift (node_value var_node)) (\<lambda>prog_name.
     bindR (eat SEMI p2) (\<lambda>p3.
     bindR (block n p3) (\<lambda>(b, p4).
     bindR (eat DOT p4) (\<lambda>p5. ret (Program prog_name b, p5)))))))"

definition parse :: "nat \<Rightarrow> Parser \<Rightarrow> program_node res" where
  "parse n p =
     bindR (program n p) (\<lambda>(node, p1).
     with_token p1 (\<lambda>t.
       if ttype t \<noteq> EOF then raise (ParserError UNEXPECTED_TOKEN t) else ret node))"

section \<open>Symbols and scoped symbol tables\<close>

text \<open>
  A Python dictionary is an association list in insertion order: \<open>d[k] = v\<close> replaces the
  value of a key that is there and appends a new key; \<open>d.get(k)\<close> is \<open>map_of d k\<close>.
  The keys of the dictionaries of the program are names, which are token values (strings,
  for the trees the parser builds) or members of \<open>TokenType\<close>; they are compared with
  the equality of \<open>pyval\<close>.
\<close>

fun dict_set :: "'k \<Rightarrow> 'v \<Rightarrow> ('k \<times> 'v) list \<Rightarrow> ('k \<times> 'v) list" where
  "dict_set k v [] = [(k, v)]"
| "dict_set k v ((k', v') # d) = (if k' = k then (k, v) # d else (k', v') # dict_set k v d)"

text \<open>The attribute \<open>name\<close> of an enum member is the identifier it is declared with.\<close>

fun enum_name :: "token_type \<Rightarrow> string" where
  "enum_name PLUS = ''PLUS''"
| "enum_name MINUS = ''MINUS''"
| "enum_name MUL = ''MUL''"
| "enum_name FLOAT_DIV = ''FLOAT_DIV''"
| "enum_name LPAREN = ''LPAREN''"
| "enum_name RPAREN = ''RPAREN''"
| "enum_name SEMI = ''SEMI''"
| "enum_name DOT = ''DOT''"
| "enum_name COLON = ''COLON''"
| "enum_name COMMA = ''COMMA''"
| "enum_name LESS = ''LESS''"
| "enum_name LESSEQUAL = ''LESSEQUAL''"
| "enum_name NOTEQUAL = ''NOTEQUAL''"
| "enum_name GREATER = ''GREATER''"
| "enum_name GREATEREQUAL = ''GREATEREQUAL''"
| "enum_name EQUAL = ''EQUAL''"
| "enum_name LBRACK = ''LBRACK''"
| "enum_name RBRACK = ''RBRACK''"
| "enum_name QUOTE = ''QUOTE''"
| "enum_name PROGRAM = ''PROGRAM''"
| "enum_name INTEGER = ''INTEGER''"
| "enum_name REAL = ''REAL''"
| "enum_name CHAR_KW = ''CHAR''"
| "enum_name INTEGER_DIV = ''INTEGER_DIV''"
| "enum_name VAR = ''VAR''"
| "enum_name PROCEDURE = ''PROCEDURE''"
| "enum_name BEGIN = ''BEGIN''"
| "enum_name AND = ''AND''"
| "enum_name ARRAY = ''ARRAY''"
| "enum_name MOD = ''MOD''"
| "enum_name DO = ''DO''"
| "enum_name ELSE = ''ELSE''"
| "enum_name IF = ''IF''"
| "enum_name NOT = ''NOT''"
| "enum_name OF = ''OF''"
| "enum_name OR = ''OR''"
| "enum_name ORD = ''ORD''"
| "enum_name READ = ''READ''"
| "enum_name READLN = ''READLN''"
| "enum_name THEN = ''THEN''"
| "enum_name WHILE = ''WHILE''"
| "enum_name WRITE = ''WRITE''"
| "enum_name WRITELN = ''WRITELN''"
| "enum_name END = ''END''"
| "enum_name ID = ''ID''"
| "enum_name INTEGER_CONST = ''INTEGER_CONST''"
| "enum_name REAL_CONST = ''REAL_CONST''"
| "enum_name STRING_CONST = ''STRING_CONST''"
| "enum_name CHAR_CONST = ''CHAR_CONST''"
| "enum_name ASSIGN = ''ASSIGN''"
| "enum_name EOF = ''EOF''"

fun symbol_name :: "symbol \<Rightarrow> pyval" where
  "symbol_name (BuiltinTypeSymbol n) = n"
| "symbol_name (VarSymbol n ty) = n"
| "symbol_name (ProcedureSymbol n a) = n"
| "symbol_name (IF_Symbol n) = n"
| "symbol_name (EnumMember tt) = PStr (enum_name tt)"

datatype ScopedSymbolTable =
  ScopedSymbolTable
    (symbols: "(pyval \<times> symbol) list")
    (scope_name: pyval)
    (scope_level: nat)
    (enclosing_scope: "ScopedSymbolTable option")

fun insert_symbol :: "symbol \<Rightarrow> ScopedSymbolTable \<Rightarrow> ScopedSymbolTable" where
  "insert_symbol smb (ScopedSymbolTable syms nm lvl enc) =
     ScopedSymbolTable (dict_set (symbol_name smb) smb syms) nm lvl enc"

definition init_builtins :: "ScopedSymbolTable \<Rightarrow> ScopedSymbolTable" where
  "init_builtins tab =
     insert_symbol (BuiltinTypeSymbol (PStr ''ARRAY''))
       (insert_symbol (BuiltinTypeSymbol (PStr ''STRING_CONST''))
         (insert_symbol (BuiltinTypeSymbol (PStr ''REAL''))
           (insert_symbol (BuiltinTypeSymbol (PStr ''INTEGER'')) tab)))"

fun lookup :: "ScopedSymbolTable \<Rightarrow> pyval \<Rightarrow> bool \<Rightarrow> symbol option" where
  "lookup (ScopedSymbolTable syms nm lvl enc) name current_scope_only =
     (case map_of syms name of
        Some smb \<Rightarrow> Some smb
      | None \<Rightarrow>
          if current_scope_only then None
          else (case enc of None \<Rightarrow> None | Some e \<Rightarrow> lookup e name False))"

section \<open>Semantic analyser\<close>

text \<open>
  The state of the analyser is its current scope and the procedure symbols created so far.
  A procedure symbol is the one object the analyser mutates after it has handed out
  references to it (\<open>formal_params.append\<close>, \<open>block_ast = ...\<close>), so its fields live in a
  store \<open>procs\<close>, indexed by the address in \<open>ProcedureSymbol name address\<close>. The analyser
  writes \<open>proc_symbol\<close> into the \<open>ProcedureCall\<close> nodes: the visit functions return the
  tree with these annotations.
\<close>

record proc_object =
  formal_params :: "symbol list"
  block_ast :: "block_node option"

record SemanticAnalyzer =
  current_scope :: "ScopedSymbolTable option"
  procs :: "proc_object list"

definition with_scope ::
  "SemanticAnalyzer \<Rightarrow> (ScopedSymbolTable \<Rightarrow> error + 'a) \<Rightarrow> error + 'a" where
  "with_scope sa f = (case current_scope sa of None \<Rightarrow> Inl AttributeError | Some sc \<Rightarrow> f sc)"

definition scope_insert :: "symbol \<Rightarrow> SemanticAnalyzer \<Rightarrow> error + SemanticAnalyzer" where
  "scope_insert smb sa =
     with_scope sa (\<lambda>sc. Inr (sa\<lparr>current_scope := Some (insert_symbol smb sc)\<rparr>))"

definition bindE :: "error + 'a \<Rightarrow> ('a \<Rightarrow> error + 'b) \<Rightarrow> error + 'b" where
  "bindE m f = (case m of Inl e \<Rightarrow> Inl e | Inr x \<Rightarrow> f x)"

fun node_token :: "expr_node \<Rightarrow> token" where
  "node_token (BinOp l t r) = t"
| "node_token (Num t) = t"
| "node_token (Str t) = t"
| "node_token (UnaryOp t e) = t"
| "node_token (Var t) = t"

fun type_node_value :: "type_node \<Rightarrow> pyval" where
  "type_node_value (Type t) = tvalue t"
| "type_node_value (Array s e v) = v"

text \<open>
  Visiting an expression changes nothing. \<open>visit_UnaryOp\<close> and \<open>visit_Num\<close> are
  \<open>pass\<close>: the operand of a unary operator is not visited.
\<close>

fun sa_visit_expr :: "SemanticAnalyzer \<Rightarrow> expr_node \<Rightarrow> error + unit" where
  "sa_visit_expr sa (BinOp l t r) = bindE (sa_visit_expr sa l) (\<lambda>_. sa_visit_expr sa r)"
| "sa_visit_expr sa (Num t) = Inr ()"
| "sa_visit_expr sa (Str t) = Inr ()"
| "sa_visit_expr sa (UnaryOp t e) = Inr ()"
| "sa_visit_expr sa (Var t) =
     with_scope sa (\<lambda>sc.
       case lookup sc (tvalue t) False of
         None \<Rightarrow> Inl (SemanticError ID_NOT_FOUND t)
       | Some smb \<Rightarrow> Inr ())"

fun sa_visit_exprs :: "SemanticAnalyzer \<Rightarrow> expr_node list \<Rightarrow> error + unit" where
  "sa_visit_exprs sa [] = Inr ()"
| "sa_visit_exprs sa (e # es) = bindE (sa_visit_expr sa e) (\<lambda>_. sa_visit_exprs sa es)"

text \<open>
  \<open>visit_IfStatement\<close> and \<open>visit_WhileStatement\<close> insert an \<open>IF_Symbol\<close> named by the
  token type of the statement and visit neither the relation nor the branches.
  \<open>visit_WRITE\<close> and \<open>visit_READ\<close> insert the enum member \<open>op\<close> itself.
\<close>

fun sa_visit_stmt ::
      "stmt_node \<Rightarrow> SemanticAnalyzer \<Rightarrow> error + stmt_node \<times> SemanticAnalyzer"
  and sa_visit_stmts ::
      "stmt_node list \<Rightarrow> SemanticAnalyzer \<Rightarrow> error + stmt_node list \<times> SemanticAnalyzer"
where
  "sa_visit_stmt (Compound children) sa =
     bindE (sa_visit_stmts children sa) (\<lambda>(cs, sa1). Inr (Compound cs, sa1))"
| "sa_visit_stmt (Assign l t r) sa =
     bindE (sa_visit_expr sa r) (\<lambda>_.
     bindE (sa_visit_expr sa l) (\<lambda>_. Inr (Assign l t r, sa)))"
| "sa_visit_stmt (ProcedureCall proc_name actual_params t proc_symbol) sa =
     bindE (sa_visit_exprs sa actual_params) (\<lambda>_.
     with_scope sa (\<lambda>sc.
       Inr (ProcedureCall proc_name actual_params t (lookup sc proc_name False), sa)))"
| "sa_visit_stmt (WRITE_node op v) sa =
     bindE (scope_insert (EnumMember op) sa) (\<lambda>sa1. Inr (WRITE_node op v, sa1))"
| "sa_visit_stmt (READ_node op items) sa =
     bindE (scope_insert (EnumMember op) sa) (\<lambda>sa1. Inr (READ_node op items, sa1))"
| "sa_visit_stmt (IfStatement nm e st el) sa =
     bindE (scope_insert (IF_Symbol (PEnum nm)) sa) (\<lambda>sa1. Inr (IfStatement nm e st el, sa1))"
| "sa_visit_stmt (WhileStatement nm e st) sa =
     bindE (scope_insert (IF_Symbol (PEnum nm)) sa) (\<lambda>sa1. Inr (WhileStatement nm e st, sa1))"
| "sa_visit_stmt NoOp sa = Inr (NoOp, sa)"
| "sa_visit_stmts [] sa = Inr ([], sa)"
| "sa_visit_stmts (c # cs) sa =
     bindE (sa_visit_stmt c sa) (\<lambda>(c', sa1).
     bindE (sa_visit_stmts cs sa1) (\<lambda>(cs', sa2). Inr (c' # cs', sa2)))"

text \<open>The loop over the formal parameters in \<open>visit_ProcedureDecl\<close>.\<close>

fun sa_params :: "nat \<Rightarrow> param_node list \<Rightarrow> SemanticAnalyzer \<Rightarrow> error + SemanticAnalyzer" where
  "sa_params a [] sa = Inr sa"
| "sa_params a (Param var_node ty # ps) sa =
     with_scope sa (\<lambda>sc.
       let param_type = lookup sc (type_node_value ty) False
       in bindE (node_value var_node) (\<lambda>param_name.
          let var_symbol = VarSymbol param_name param_type
          in bindE (scope_insert var_symbol sa) (\<lambda>sa1.
             sa_params a ps
               (sa1\<lparr>procs := (procs sa1)
                    [a := (procs sa1 ! a)\<lparr>formal_params :=
                            formal_params (procs sa1 ! a) @ [var_symbol]\<rparr>]\<rparr>))))"

fun sa_visit_decl ::
      "decl_node \<Rightarrow> SemanticAnalyzer \<Rightarrow> error + decl_node \<times> SemanticAnalyzer"
  and sa_visit_decls ::
      "decl_node list \<Rightarrow> SemanticAnalyzer \<Rightarrow> error + decl_node list \<times> SemanticAnalyzer"
  and sa_visit_block ::
      "block_node \<Rightarrow> SemanticAnalyzer \<Rightarrow> error + block_node \<times> SemanticAnalyzer"
where
  "sa_visit_decl (VarDecl var_node ty) sa =
     with_scope sa (\<lambda>sc.
       let type_symbol = lookup sc (type_node_value ty) False
       in bindE (node_value var_node) (\<lambda>var_name.
          if lookup sc var_name True \<noteq> None
          then Inl (SemanticError DUPLICATE_ID (node_token var_node))
          else bindE (scope_insert (VarSymbol var_name type_symbol) sa) (\<lambda>sa1.
               Inr (VarDecl var_node ty, sa1))))"
| "sa_visit_decl (ProcedureDecl proc_name params blk) sa =
     (let a = length (procs sa);
          sa0 = sa\<lparr>procs := procs sa @ [\<lparr>formal_params = [], block_ast = None\<rparr>]\<rparr>
      in bindE (scope_insert (ProcedureSymbol proc_name a) sa0) (\<lambda>sa1.
         with_scope sa1 (\<lambda>sc.
         let procedure_scope = ScopedSymbolTable [] proc_name (scope_level sc + 1) (Some sc)
         in bindE (sa_params a params (sa1\<lparr>current_scope := Some procedure_scope\<rparr>)) (\<lambda>sa2.
            bindE (sa_visit_block blk sa2) (\<lambda>(blk', sa3).
            with_scope sa3 (\<lambda>sc3.
              let sa4 = sa3\<lparr>current_scope := enclosing_scope sc3\<rparr>
              in Inr (ProcedureDecl proc_name params blk',
                      sa4\<lparr>procs := (procs sa4)
                           [a := (procs sa4 ! a)\<lparr>block_ast := Some blk'\<rparr>]\<rparr>)))))))"
| "sa_visit_decls [] sa = Inr ([], sa)"
| "sa_visit_decls (d # ds) sa =
     bindE (sa_visit_decl d sa) (\<lambda>(d', sa1).
     bindE (sa_visit_decls ds sa1) (\<lambda>(ds', sa2). Inr (d' # ds', sa2)))"
| "sa_visit_block (Block ds c) sa =
     bindE (sa_visit_decls ds sa) (\<lambda>(ds', sa1).
     bindE (sa_visit_stmt c sa1) (\<lambda>(c', sa2). Inr (Block ds' c', sa2)))"

definition sa_visit_Program ::
  "program_node \<Rightarrow> SemanticAnalyzer \<Rightarrow> error + program_node \<times> SemanticAnalyzer" where
  "sa_visit_Program node sa =
     (case node of Program nm blk \<Rightarrow>
        let global_scope =
              init_builtins (ScopedSymbolTable [] (PStr ''global'') 1 (current_scope sa))
        in bindE (sa_visit_block blk (sa\<lparr>current_scope := Some global_scope\<rparr>)) (\<lambda>(blk', sa1).
           with_scope sa1 (\<lambda>sc.
             Inr (Program nm blk', sa1\<lparr>current_scope := enclosing_scope sc\<rparr>))))"

definition SemanticAnalyzer_init :: SemanticAnalyzer where
  "SemanticAnalyzer_init = \<lparr>current_scope = None, procs = []\<rparr>"

section \<open>Python operators on values\<close>

text \<open>
  The operators the interpreter applies to the values of expressions, with the cases in
  which Python raises. Integer and float mix to float; \<open>+\<close> concatenates two strings;
  \<open>*\<close> repeats a string; \<open>//\<close> is floor division, which rounds towards minus infinity.
\<close>

fun py_add :: "pyval \<Rightarrow> pyval \<Rightarrow> error + pyval" where
  "py_add (PInt a) (PInt b) = Inr (PInt (a + b))"
| "py_add (PInt a) (PFloat b) = Inr (PFloat (real_of_int a + b))"
| "py_add (PFloat a) (PInt b) = Inr (PFloat (a + real_of_int b))"
| "py_add (PFloat a) (PFloat b) = Inr (PFloat (a + b))"
| "py_add (PStr a) (PStr b) = Inr (PStr (a @ b))"
| "py_add _ _ = Inl TypeError"

fun py_sub :: "pyval \<Rightarrow> pyval \<Rightarrow> error + pyval" where
  "py_sub (PInt a) (PInt b) = Inr (PInt (a - b))"
| "py_sub (PInt a) (PFloat b) = Inr (PFloat (real_of_int a - b))"
| "py_sub (PFloat a) (PInt b) = Inr (PFloat (a - real_of_int b))"
| "py_sub (PFloat a) (PFloat b) = Inr (PFloat (a - b))"
| "py_sub _ _ = Inl TypeError"

definition str_repeat :: "string \<Rightarrow> int \<Rightarrow> string" where
  "str_repeat s n = concat (replicate (nat n) s)"

fun py_mul :: "pyval \<Rightarrow> pyval \<Rightarrow> error + pyval" where
  "py_mul (PInt a) (PInt b) = Inr (PInt (a * b))"
| "py_mul (PInt a) (PFloat b) = Inr (PFloat (real_of_int a * b))"
| "py_mul (PFloat a) (PInt b) = Inr (PFloat (a * real_of_int b))"
| "py_mul (PFloat a) (PFloat b) = Inr (PFloat (a * b))"
| "py_mul (PStr a) (PInt b) = Inr (PStr (str_repeat a b))"
| "py_mul (PInt a) (PStr b) = Inr (PStr (str_repeat b a))"
| "py_mul _ _ = Inl TypeError"

definition float_floordiv :: "real \<Rightarrow> real \<Rightarrow> error + pyval" where
  "float_floordiv a b =
     (if b = 0 then Inl ZeroDivisionError else Inr (PFloat (real_of_int \<lfloor>a / b\<rfloor>)))"

fun py_floordiv :: "pyval \<Rightarrow> pyval \<Rightarrow> error + pyval" where
  "py_floordiv (PInt a) (PInt b) = (if b = 0 then Inl ZeroDivisionError else Inr (PInt (a div b)))"
| "py_floordiv (PInt a) (PFloat b) = float_floordiv (real_of_int a) b"
| "py_floordiv (PFloat a) (PInt b) = float_floordiv a (real_of_int b)"
| "py_floordiv (PFloat a) (PFloat b) = float_floordiv a b"
| "py_floordiv _ _ = Inl TypeError"

text \<open>\<open>float(x)\<close>. The conversion of a string is not modelled.\<close>

fun py_float :: "pyval \<Rightarrow> error + real" where
  "py_float (PInt a) = Inr (real_of_int a)"
| "py_float (PFloat a) = Inr a"
| "py_float (PStr s) = Inl NotModelled"
| "py_float _ = Inl TypeError"

definition py_truediv :: "real \<Rightarrow> real \<Rightarrow> error + pyval" where
  "py_truediv a b = (if b = 0 then Inl ZeroDivisionError else Inr (PFloat (a / b)))"

fun py_pos :: "pyval \<Rightarrow> error + pyval" where
  "py_pos (PInt a) = Inr (PInt a)"
| "py_pos (PFloat a) = Inr (PFloat a)"
| "py_pos _ = Inl TypeError"

fun py_neg :: "pyval \<Rightarrow> error + pyval" where
  "py_neg (PInt a) = Inr (PInt (- a))"
| "py_neg (PFloat a) = Inr (PFloat (- a))"
| "py_neg _ = Inl TypeError"

fun py_eq :: "pyval \<Rightarrow> pyval \<Rightarrow> bool" where
  "py_eq (PInt a) (PFloat b) = (real_of_int a = b)"
| "py_eq (PFloat a) (PInt b) = (a = real_of_int b)"
| "py_eq x y = (x = y)"

fun str_lt :: "string \<Rightarrow> string \<Rightarrow> bool" where
  "str_lt [] [] = False"
| "str_lt [] (y # ys) = True"
| "str_lt (x # xs) [] = False"
| "str_lt (x # xs) (y # ys) =
     ((of_char x :: nat) < of_char y \<or> (x = y \<and> str_lt xs ys))"

fun py_lt :: "pyval \<Rightarrow> pyval \<Rightarrow> error + bool" where
  "py_lt (PInt a) (PInt b) = Inr (a < b)"
| "py_lt (PInt a) (PFloat b) = Inr (real_of_int a < b)"
| "py_lt (PFloat a) (PInt b) = Inr (a < real_of_int b)"
| "py_lt (PFloat a) (PFloat b) = Inr (a < b)"
| "py_lt (PStr a) (PStr b) = Inr (str_lt a b)"
| "py_lt _ _ = Inl TypeError"

definition py_gt :: "pyval \<Rightarrow> pyval \<Rightarrow> error + bool" where
  "py_gt x y = py_lt y x"

definition py_le :: "pyval \<Rightarrow> pyval \<Rightarrow> error + bool" where
  "py_le x y = bindE (py_lt y x) (\<lambda>b. Inr (\<not> b))"

definition py_ge :: "pyval \<Rightarrow> pyval \<Rightarrow> error + bool" where
  "py_ge x y = bindE (py_lt x y) (\<lambda>b. Inr (\<not> b))"

section \<open>Interpreter\<close>

datatype ARType = AR_PROGRAM | AR_PROCEDURE

text \<open>
  An activation record. The field \<open>counter\<close> of the source only numbers the lines of the
  MIPS trace and is left out.
\<close>

record ActivationRecord =
  ar_name :: pyval
  ar_type :: ARType
  nesting_level :: nat
  members :: "(pyval \<times> pyval) list"

text \<open>
  What the interpreter prints, it prints through \<open>self.log\<close>, which prints when the flag
  \<open>_SHOULD_LOG_STACK\<close> is set. The traces of the other stages (the flags \<open>--lexer\<close>,
  \<open>--scope\<close>, \<open>--visitor\<close> and \<open>--mips\<close>) are left out. Each entry stands for one
  call of \<open>print\<close>:
  \<^item> \<open>LogEnter\<close>, \<open>LogLeave\<close>: \<^verbatim>\<open>ENTER: PROGRAM p\<close>, \<^verbatim>\<open>LEAVE: PROCEDURE q\<close>;
  \<^item> \<open>LogCallStack\<close>: \<open>str(self.call_stack)\<close>, the records of the stack with their members;
  \<^item> \<open>LogWrite op param\<close>: \<^verbatim>\<open>WRITE -> param\<close> and a newline, or for \<open>WRITELN\<close> the text
    \<^verbatim>\<open>WRITELN -> param \n \<close> (a backslash and the letter n) and a newline;
  \<^item> \<open>LogRead\<close>: the same for \<open>READ\<close> and \<open>READLN\<close>, with the list of parameters;
  \<^item> \<open>LogIf l r\<close>, \<open>LogWhile l r\<close>: \<^verbatim>\<open>IF Statement Result => l  : r\<close> and
    \<^verbatim>\<open>While Statement Result => l  : r\<close>.
\<close>

datatype log_entry =
    LogEnter ARType pyval
  | LogLeave ARType pyval
  | LogCallStack "ActivationRecord list"
  | LogWrite token_type pyval
  | LogRead token_type "read_item list"
  | LogIf pyval pyval
  | LogWhile pyval pyval

text \<open>
  The call stack is the list \<open>_records\<close>: \<open>push\<close> appends, \<open>pop\<close> removes the last
  record, and the top of the stack is the last element.
\<close>

record Interpreter =
  call_stack :: "ActivationRecord list"
  should_log_stack :: bool
  printed :: "log_entry list"

definition log_msg :: "log_entry \<Rightarrow> Interpreter \<Rightarrow> Interpreter" where
  "log_msg msg st = (if should_log_stack st then st\<lparr>printed := printed st @ [msg]\<rparr> else st)"

definition push :: "ActivationRecord \<Rightarrow> Interpreter \<Rightarrow> Interpreter" where
  "push ar st = st\<lparr>call_stack := call_stack st @ [ar]\<rparr>"

definition pop :: "Interpreter \<Rightarrow> error + Interpreter" where
  "pop st = (if call_stack st = [] then Inl IndexError
             else Inr (st\<lparr>call_stack := butlast (call_stack st)\<rparr>))"

definition top_record :: "Interpreter \<Rightarrow> error + ActivationRecord" where
  "top_record st = (if call_stack st = [] then Inl IndexError else Inr (last (call_stack st)))"

definition ar_get :: "ActivationRecord \<Rightarrow> pyval \<Rightarrow> pyval" where
  "ar_get ar key = (case map_of (members ar) key of None \<Rightarrow> PNone | Some v \<Rightarrow> v)"

definition ar_set :: "pyval \<Rightarrow> pyval \<Rightarrow> ActivationRecord \<Rightarrow> ActivationRecord" where
  "ar_set key v ar = ar\<lparr>members := dict_set key v (members ar)\<rparr>"

text \<open>
  Evaluating an expression reads the record on top of the stack and changes nothing.
  A \<open>BinOp\<close> or \<open>UnaryOp\<close> with an operator outside the \<open>if\<close> chain returns \<open>None\<close>.
  For \<open>/\<close> the left operand is evaluated and converted before the right one is visited.
\<close>

fun visit_expr :: "Interpreter \<Rightarrow> expr_node \<Rightarrow> error + pyval" where
  "visit_expr st (BinOp l t r) =
     (if ttype t = PLUS
      then bindE (visit_expr st l) (\<lambda>a. bindE (visit_expr st r) (\<lambda>b. py_add a b))
      else if ttype t = MINUS
      then bindE (visit_expr st l) (\<lambda>a. bindE (visit_expr st r) (\<lambda>b. py_sub a b))
      else if ttype t = MUL
      then bindE (visit_expr st l) (\<lambda>a. bindE (visit_expr st r) (\<lambda>b. py_mul a b))
      else if ttype t = INTEGER_DIV
      then bindE (visit_expr st l) (\<lambda>a. bindE (visit_expr st r) (\<lambda>b. py_floordiv a b))
      else if ttype t = FLOAT_DIV
      then bindE (visit_expr st l) (\<lambda>a. bindE (py_float a) (\<lambda>x.
           bindE (visit_expr st r) (\<lambda>b. bindE (py_float b) (\<lambda>y. py_truediv x y))))
      else Inr PNone)"
| "visit_expr st (Num t) = Inr (tvalue t)"
| "visit_expr st (Str t) = Inr (tvalue t)"
| "visit_expr st (UnaryOp t e) =
     (if ttype t = PLUS then bindE (visit_expr st e) py_pos
      else if ttype t = MINUS then bindE (visit_expr st e) py_neg
      else Inr PNone)"
| "visit_expr st (Var t) = bindE (top_record st) (\<lambda>ar. Inr (ar_get ar (tvalue t)))"

text \<open>
  \<open>visit_IfStatement\<close> and \<open>visit_WhileStatement\<close> read \<open>node.statement.left.value\<close>,
  \<open>node.statement.token.type\<close> and \<open>node.statement.right.value\<close>: the statement has to
  be an assignment whose sides have a \<open>value\<close>.
\<close>

fun assign_parts :: "stmt_node \<Rightarrow> error + pyval \<times> pyval" where
  "assign_parts (Assign l t r) =
     bindE (node_value l) (\<lambda>lv. bindE (node_value r) (\<lambda>rv. Inr (lv, rv)))"
| "assign_parts _ = Inl AttributeError"

definition else_parts :: "stmt_node option \<Rightarrow> error + pyval \<times> pyval" where
  "else_parts el = (case el of None \<Rightarrow> Inl AttributeError | Some s \<Rightarrow> assign_parts s)"

text \<open>The comparison that the token of the relation selects, if it is one of the five.\<close>

definition relation_test :: "token_type \<Rightarrow> (pyval \<Rightarrow> pyval \<Rightarrow> error + bool) option" where
  "relation_test tt =
     (if tt = EQUAL then Some (\<lambda>a b. Inr (py_eq a b))
      else if tt = LESS then Some py_lt
      else if tt = LESSEQUAL then Some py_le
      else if tt = GREATER then Some py_gt
      else if tt = GREATEREQUAL then Some py_ge
      else None)"

fun visit_IfStatement ::
  "relation_node \<Rightarrow> stmt_node \<Rightarrow> stmt_node option \<Rightarrow> Interpreter \<Rightarrow> error + Interpreter"
where
  "visit_IfStatement (Relation left t right) body elseStatement st =
     bindE (visit_expr st left) (\<lambda>left_value.
     bindE (node_value right) (\<lambda>right_value.
       case relation_test (ttype t) of
         None \<Rightarrow> Inr st
       | Some test \<Rightarrow>
           bindE (test left_value right_value) (\<lambda>holds.
             if holds
             then bindE (assign_parts body) (\<lambda>(l, r). Inr (log_msg (LogIf l r) st))
             else bindE (else_parts elseStatement) (\<lambda>(l, r). Inr (log_msg (LogIf l r) st)))))"

fun visit_WhileStatement ::
  "relation_node \<Rightarrow> stmt_node \<Rightarrow> Interpreter \<Rightarrow> error + Interpreter"
where
  "visit_WhileStatement (Relation left t right) body st =
     bindE (visit_expr st left) (\<lambda>left_value.
     bindE (node_value right) (\<lambda>right_value.
       case relation_test (ttype t) of
         None \<Rightarrow> Inr st
       | Some test \<Rightarrow>
           bindE (test left_value right_value) (\<lambda>holds.
             if holds
             then bindE (assign_parts body) (\<lambda>(l, r). Inr (log_msg (LogWhile l r) st))
             else Inr st)))"

definition visit_Assign :: "expr_node \<Rightarrow> expr_node \<Rightarrow> Interpreter \<Rightarrow> error + Interpreter" where
  "visit_Assign left right st =
     bindE (node_value left) (\<lambda>var_name.
     bindE (visit_expr st right) (\<lambda>var_value.
     bindE (top_record st) (\<lambda>ar.
       Inr (st\<lparr>call_stack := butlast (call_stack st) @ [ar_set var_name var_value ar]\<rparr>))))"

text \<open>
  The loop \<open>for param_symbol, argument_node in zip(formal_params, actual_params)\<close>: the
  arguments are evaluated on the stack of the caller, before the new record is pushed.
\<close>

fun bind_params ::
  "Interpreter \<Rightarrow> symbol list \<Rightarrow> expr_node list \<Rightarrow> ActivationRecord \<Rightarrow> error + ActivationRecord"
where
  "bind_params st (param_symbol # ps) (argument_node # args) ar =
     bindE (visit_expr st argument_node) (\<lambda>v.
       bind_params st ps args (ar_set (symbol_name param_symbol) v ar))"
| "bind_params st _ _ ar = Inr ar"

text \<open>
  \<open>proc_symbol.formal_params\<close> and \<open>proc_symbol.block_ast\<close>: only a procedure symbol has
  these attributes.
\<close>

definition proc_fields :: "proc_object list \<Rightarrow> symbol option \<Rightarrow> error + proc_object" where
  "proc_fields ps proc_symbol =
     (case proc_symbol of
        Some (ProcedureSymbol nm a) \<Rightarrow> if a < length ps then Inr (ps ! a) else Inl AttributeError
      | _ \<Rightarrow> Inl AttributeError)"

text \<open>
  Statements are executed with fuel, since a procedure may call itself without end: every
  visit takes one unit, and \<open>None\<close> is the result of a visit that has none left. The
  recursion limit of Python, which ends a recursion of some thousand frames with a
  \<open>RecursionError\<close>, is not modelled: a run that needs ever more fuel has no result.
  The declarations of a block are visited by \<open>visit_VarDecl\<close> and
  \<open>visit_ProcedureDecl\<close>, which are \<open>pass\<close>.
\<close>

fun visit_stmt :: "nat \<Rightarrow> proc_object list \<Rightarrow> stmt_node \<Rightarrow> Interpreter \<Rightarrow> Interpreter res"
  and visit_stmts :: "nat \<Rightarrow> proc_object list \<Rightarrow> stmt_node list \<Rightarrow> Interpreter \<Rightarrow> Interpreter res"
  and visit_Block :: "nat \<Rightarrow> proc_object list \<Rightarrow> block_node \<Rightarrow> Interpreter \<Rightarrow> Interpreter res"
where
  "visit_stmt 0 ps node st = None"
| "visit_stmt (Suc n) ps (Compound children) st = visit_stmts n ps children st"
| "visit_stmt (Suc n) ps (Assign l t r) st = lift (visit_Assign l r st)"
| "visit_stmt (Suc n) ps (ProcedureCall proc_name actual_params t proc_symbol) st =
     (let ar = \<lparr>ar_name = proc_name, ar_type = AR_PROCEDURE, nesting_level = 2, members = []\<rparr>
      in bindR (lift (proc_fields ps proc_symbol)) (\<lambda>obj.
         bindR (lift (bind_params st (formal_params obj) actual_params ar)) (\<lambda>ar1.
         let st1 = push ar1 st;
             st2 = log_msg (LogEnter AR_PROCEDURE proc_name) st1;
             st3 = log_msg (LogCallStack (call_stack st2)) st2
         in case block_ast obj of
              None \<Rightarrow> raise (PyException ''No visit_NoneType method'')
            | Some blk \<Rightarrow>
                bindR (visit_Block n ps blk st3) (\<lambda>st4.
                let st5 = log_msg (LogLeave AR_PROCEDURE proc_name) st4;
                    st6 = log_msg (LogCallStack (call_stack st5)) st5
                in lift (pop st6)))))"
| "visit_stmt (Suc n) ps (WRITE_node op v) st = ret (log_msg (LogWrite op v) st)"
| "visit_stmt (Suc n) ps (READ_node op items) st = ret (log_msg (LogRead op items) st)"
| "visit_stmt (Suc n) ps (IfStatement nm e s el) st =
     lift (visit_IfStatement e s el st)"
| "visit_stmt (Suc n) ps (WhileStatement nm e s) st =
     lift (visit_WhileStatement e s st)"
| "visit_stmt (Suc n) ps NoOp st = ret st"
| "visit_stmts 0 ps children st = None"
| "visit_stmts (Suc n) ps [] st = ret st"
| "visit_stmts (Suc n) ps (child # children) st =
     bindR (visit_stmt n ps child st) (\<lambda>st1. visit_stmts n ps children st1)"
| "visit_Block 0 ps blk st = None"
| "visit_Block (Suc n) ps (Block ds c) st = visit_stmt n ps c st"

definition visit_Program :: "nat \<Rightarrow> proc_object list \<Rightarrow> program_node \<Rightarrow> Interpreter \<Rightarrow> Interpreter res" where
  "visit_Program n ps node st =
     (case node of Program program_name blk \<Rightarrow>
        let ar = \<lparr>ar_name = program_name, ar_type = AR_PROGRAM, nesting_level = 1, members = []\<rparr>;
            st1 = log_msg (LogEnter AR_PROGRAM program_name) st;
            st2 = push ar st1;
            st3 = log_msg (LogCallStack (call_stack st2)) st2
        in bindR (visit_Block n ps blk st3) (\<lambda>st4.
           let st5 = log_msg (LogLeave AR_PROGRAM program_name) st4;
               st6 = log_msg (LogCallStack (call_stack st5)) st5
           in lift (pop st6)))"

definition Interpreter_init :: "bool \<Rightarrow> Interpreter" where
  "Interpreter_init flag = \<lparr>call_stack = [], should_log_stack = flag, printed = []\<rparr>"

section \<open>The pipeline\<close>

text \<open>
  \<open>main\<close>: lexer, parser, semantic analyser, interpreter. The first argument is the fuel
  of the parser and of the interpreter, the second the flag \<open>--stack\<close>.
\<close>

definition parse_text :: "nat \<Rightarrow> string \<Rightarrow> program_node res" where
  "parse_text n txt = bindR (lift (Lexer_init txt)) (\<lambda>lx. bindR (Parser_init lx) (parse n))"

definition analyze :: "program_node \<Rightarrow> error + program_node \<times> SemanticAnalyzer" where
  "analyze tree = sa_visit_Program tree SemanticAnalyzer_init"

definition main :: "nat \<Rightarrow> bool \<Rightarrow> string \<Rightarrow> Interpreter res" where
  "main n flag txt =
     bindR (parse_text n txt) (\<lambda>tree.
     bindR (lift (analyze tree)) (\<lambda>(tree', sa).
     visit_Program n (procs sa) tree' (Interpreter_init flag)))"

section \<open>Definitions used to state the properties\<close>


text \<open>A token at position 1:1, for trees written by hand.\<close>

definition mk_tok :: "token_type \<Rightarrow> pyval \<Rightarrow> token" where
  "mk_tok tt v = \<lparr>ttype = tt, tvalue = v, tlineno = Some 1, tcolumn = Some 1\<rparr>"

text \<open>The single quote of the source language cannot be written inside a string literal.\<close>

definition quote :: string where
  "quote = [CHR 0x27]"

text \<open>
  A lexer whose current character is the character of the text at its position, or
  \<open>None\<close> behind the end of the text. \<open>Lexer.__init__\<close> and \<open>advance\<close> establish it.
\<close>

definition lexer_ok :: "Lexer \<Rightarrow> bool" where
  "lexer_ok lx \<longleftrightarrow>
     current_char lx =
       (if pos lx < length (input_text lx) then Some (input_text lx ! pos lx) else None)"

text \<open>The program of the end-to-end scenario, and the block the parser builds from it.\<close>

definition example_source :: string where
  "example_source =
     ''PROGRAM p; VAR x: INTEGER; BEGIN x := 2 + 3 * 4; WRITELN('' @ quote @ ''done'' @ quote @ '') END.''"

definition example_block :: block_node where
  "example_block =
     Block
       [VarDecl
          (Var \<lparr>ttype = ID, tvalue = PStr ''x'', tlineno = Some 1, tcolumn = Some 16\<rparr>)
          (Type \<lparr>ttype = INTEGER, tvalue = PStr ''INTEGER'', tlineno = Some 1,
                  tcolumn = Some 19\<rparr>)]
       (Compound
          [Assign
             (Var \<lparr>ttype = ID, tvalue = PStr ''x'', tlineno = Some 1, tcolumn = Some 34\<rparr>)
             \<lparr>ttype = ASSIGN, tvalue = PStr '':='', tlineno = Some 1, tcolumn = Some 36\<rparr>
             (BinOp
                (Num \<lparr>ttype = INTEGER_CONST, tvalue = PInt 2, tlineno = Some 1,
                       tcolumn = Some 39\<rparr>)
                \<lparr>ttype = PLUS, tvalue = PStr ''+'', tlineno = Some 1, tcolumn = Some 41\<rparr>
                (BinOp
                   (Num \<lparr>ttype = INTEGER_CONST, tvalue = PInt 3, tlineno = Some 1,
                          tcolumn = Some 43\<rparr>)
                   \<lparr>ttype = MUL, tvalue = PStr ''*'', tlineno = Some 1, tcolumn = Some 45\<rparr>
                   (Num \<lparr>ttype = INTEGER_CONST, tvalue = PInt 4, tlineno = Some 1,
                          tcolumn = Some 47\<rparr>))),
           WRITE_node WRITELN (PStr ''done'')])"

declare get_next_token.simps [code]
declare skip_comment.simps [code]

section \<open>Properties\<close>

subsection \<open>Helper lemmas\<close>














subsection \<open>The lexer on a text\<close>

lemma advance_ok: "lexer_ok (advance lx)"
  by (auto simp: lexer_ok_def advance_def Let_def)

lemma advance_text: "input_text (advance lx) = input_text lx"
  by (simp add: advance_def Let_def)

lemma advance_pos: "pos (advance lx) = Suc (pos lx)"
  by (simp add: advance_def Let_def)

lemma Lexer_init_ok:
  "Lexer_init txt = Inr lx \<Longrightarrow> lexer_ok lx \<and> input_text lx = txt \<and> pos lx = 0"
  by (auto simp: Lexer_init_def lexer_ok_def split: list.splits)

lemma ok_current_char:
  "lexer_ok lx \<Longrightarrow> current_char lx = (case drop (pos lx) (input_text lx) of [] \<Rightarrow> None | c # _ \<Rightarrow> Some c)"
  by (auto simp: lexer_ok_def split: list.splits simp: drop_eq_Nil hd_drop_conv_nth
      dest: arg_cong [where f = hd])

lemma ok_drop_advance:
  "drop (pos (advance lx)) (input_text (advance lx)) = tl (drop (pos lx) (input_text lx))"
  by (simp add: advance_pos advance_text drop_Suc tl_drop)

lemma skip_comment_Some_brace:
  assumes "skip_comment lx = Some y"
  shows "\<not> (lexer_ok lx \<and> CHR ''}'' \<notin> set (drop (pos lx) (input_text lx)))"
proof (rule skip_comment.raw_induct
    [where P = "\<lambda>lx y. \<not> (lexer_ok lx \<and> CHR ''}'' \<notin> set (drop (pos lx) (input_text lx)))",
      OF _ assms])
  fix f x z
  assume IH: "\<And>x y. f x = Some y \<Longrightarrow>
      \<not> (lexer_ok x \<and> CHR ''}'' \<notin> set (drop (pos x) (input_text x)))"
    and eq: "(if current_char x \<noteq> Some (CHR ''}'') then f (advance x) else Some (advance x))
             = Some z"
  show "\<not> (lexer_ok x \<and> CHR ''}'' \<notin> set (drop (pos x) (input_text x)))"
  proof
    assume a: "lexer_ok x \<and> CHR ''}'' \<notin> set (drop (pos x) (input_text x))"
    then have cc: "current_char x \<noteq> Some (CHR ''}'')"
      by (auto simp: ok_current_char split: list.splits)
    with eq have "f (advance x) = Some z" by simp
    from IH [OF this] have "\<not> (lexer_ok (advance x)
        \<and> CHR ''}'' \<notin> set (drop (pos (advance x)) (input_text (advance x))))" .
    moreover have "CHR ''}'' \<notin> set (drop (pos (advance x)) (input_text (advance x)))"
      using a by (cases "drop (pos x) (input_text x)") (auto simp: ok_drop_advance)
    ultimately show False by (simp add: advance_ok)
  qed
qed

lemma skip_comment_None:
  "lexer_ok lx \<Longrightarrow> CHR ''}'' \<notin> set (drop (pos lx) (input_text lx)) \<Longrightarrow> skip_comment lx = None"
  using skip_comment_Some_brace [of lx] by (cases "skip_comment lx") auto

lemma take_while_ok:
  "lexer_ok lx \<Longrightarrow> take_while P acc lx = (acc', lx') \<Longrightarrow>
     acc' = acc @ takeWhile P (drop (pos lx) (input_text lx))
     \<and> lexer_ok lx' \<and> input_text lx' = input_text lx
     \<and> pos lx' = pos lx + length (takeWhile P (drop (pos lx) (input_text lx)))"
proof (induction P acc lx arbitrary: acc' lx' rule: take_while.induct)
  case (1 P acc lx)
  show ?case
  proof (cases "drop (pos lx) (input_text lx)")
    case Nil
    with 1(2) have "current_char lx = None" by (simp add: ok_current_char)
    with 1(3) Nil show ?thesis using 1(2) by (simp add: take_while.simps [of P acc lx])
  next
    case (Cons c cs)
    with 1(2) have cc: "current_char lx = Some c" by (simp add: ok_current_char)
    show ?thesis
    proof (cases "P c")
      case True
      with cc 1(3) have "take_while P (acc @ [c]) (advance lx) = (acc', lx')"
        by (simp add: take_while.simps [of P acc lx])
      moreover from Cons have "drop (Suc (pos lx)) (input_text lx) = cs"
        by (metis drop_Suc tl_drop list.sel(3))
      ultimately show ?thesis
        using 1(1) [OF cc True advance_ok] Cons True
        by (simp add: advance_text advance_pos)
    next
      case False
      with cc 1(3) Cons show ?thesis using 1(2) by (simp add: take_while.simps [of P acc lx])
    qed
  qed
qed



lemma Lexer_init_drop:
  "Lexer_init txt = Inr lx \<Longrightarrow> lexer_ok lx \<and> drop (pos lx) (input_text lx) = txt"
  by (auto dest: Lexer_init_ok)






subsection \<open>Conditionals and loops\<close>

text \<open>
  C1. The claim is that the interpreter executes the body of a \<open>WHILE\<close> for as long as
  the relation holds, and the \<open>THEN\<close> or \<open>ELSE\<close> statement of an \<open>IF\<close>. The
  interpreter does neither. In the program below \<open>x\<close> is 0 when the loop is reached, so
  \<open>x < 3\<close> holds; the run prints one trace line for the loop and one for the conditional,
  never assigns 5 or 7 to \<open>x\<close>, does not evaluate the relation a second time and ends
  with \<open>x = 0\<close> in the record of the program.
\<close>

theorem C1_while_and_if_bodies_not_executed:
  "main 12 True
     ''PROGRAM p; VAR x: INTEGER; BEGIN x := 0; WHILE x < 3 DO x := 5; IF x < 3 THEN x := 7 ELSE x := 9 END.''
   = Some (Inr \<lparr>call_stack = [], should_log_stack = True,
          printed =
            [LogEnter AR_PROGRAM (PStr ''p''),
             LogCallStack
              [\<lparr>ar_name = PStr ''p'', ar_type = AR_PROGRAM,
                  nesting_level = 1, members = []\<rparr>],
             LogWhile (PStr ''x'') (PInt 5), LogIf (PStr ''x'') (PInt 7),
             LogLeave AR_PROGRAM (PStr ''p''),
             LogCallStack
              [\<lparr>ar_name = PStr ''p'', ar_type = AR_PROGRAM,
                  nesting_level = 1, members = [(PStr ''x'', PInt 0)]\<rparr>]]\<rparr>)"
  by code_simp

subsection \<open>Undeclared identifiers\<close>

text \<open>
  C2. The claim is that an identifier that resolves in no scope makes semantic analysis
  fail wherever it occurs, also inside an \<open>IF\<close> or \<open>WHILE\<close>. The analyser does not
  visit the relation or the branches of these statements: the program below uses the
  undeclared \<open>y\<close> in both, passes analysis with its tree unchanged, and reaches the
  interpreter, which raises \<open>TypeError\<close> on \<open>None < 1\<close>.
\<close>

theorem C2_undeclared_in_if_passes_analysis:
  "(case parse_text 12 ''PROGRAM p; BEGIN IF y < 1 THEN y := 2 END.'' of
      Some (Inr tree) \<Rightarrow> (case analyze tree of Inr (tree', sa) \<Rightarrow> tree' = tree | Inl e \<Rightarrow> False)
    | _ \<Rightarrow> False)
   \<and> main 12 False ''PROGRAM p; BEGIN IF y < 1 THEN y := 2 END.'' = Some (Inl TypeError)"
  by code_simp

subsection \<open>Division\<close>




subsection \<open>Names in the symbol table\<close>




subsection \<open>Reading a variable that the current record does not hold\<close>

text \<open>
  C8, as stated: reading a name that is absent from the record on top of the stack is a
  fatal runtime error. In the program below the procedure \<open>q\<close> reads the variable \<open>x\<close>
  of the program; the run passes analysis, stores \<open>None\<close> in \<open>y\<close> and ends normally.
\<close>

theorem C8_counterexample:
  "main 20 True
     ''PROGRAM p; VAR x: INTEGER; PROCEDURE q; VAR y: INTEGER; BEGIN y := x END; BEGIN x := 1; q() END.''
   = Some (Inr \<lparr>call_stack = [], should_log_stack = True,
          printed =
            [LogEnter AR_PROGRAM (PStr ''p''),
             LogCallStack
              [\<lparr>ar_name = PStr ''p'', ar_type = AR_PROGRAM,
                  nesting_level = 1, members = []\<rparr>],
             LogEnter AR_PROCEDURE (PStr ''q''),
             LogCallStack
              [\<lparr>ar_name = PStr ''p'', ar_type = AR_PROGRAM,
                  nesting_level = 1, members = [(PStr ''x'', PInt 1)]\<rparr>,
               \<lparr>ar_name = PStr ''q'', ar_type = AR_PROCEDURE,
                  nesting_level = 2, members = []\<rparr>],
             LogLeave AR_PROCEDURE (PStr ''q''),
             LogCallStack
              [\<lparr>ar_name = PStr ''p'', ar_type = AR_PROGRAM,
                  nesting_level = 1, members = [(PStr ''x'', PInt 1)]\<rparr>,
               \<lparr>ar_name = PStr ''q'', ar_type = AR_PROCEDURE,
                  nesting_level = 2, members = [(PStr ''y'', PNone)]\<rparr>],
             LogLeave AR_PROGRAM (PStr ''p''),
             LogCallStack
              [\<lparr>ar_name = PStr ''p'', ar_type = AR_PROGRAM,
                  nesting_level = 1, members = [(PStr ''x'', PInt 1)]\<rparr>]]\<rparr>)"
  by code_simp

text \<open>
  C8, amended. Reading a variable whose name is absent from the record on top of the
  stack raises nothing: the read returns \<open>None\<close>, and execution goes on with that value.
\<close>

theorem C8_absent_variable_reads_None:
  assumes "top_record st = Inr ar" and "map_of (members ar) (tvalue t) = None"
  shows "visit_expr st (Var t) = Inr PNone"
  using assms by (simp add: bindE_def ar_get_def)

theorem C8_witness:
  "visit_expr
     \<lparr>call_stack = [\<lparr>ar_name = PStr ''q'', ar_type = AR_PROCEDURE, nesting_level = 2,
                       members = []\<rparr>],
        should_log_stack = False, printed = []\<rparr>
     (Var (mk_tok ID (PStr ''x''))) = Inr PNone"
  by (rule C8_absent_variable_reads_None
        [where ar = "\<lparr>ar_name = PStr ''q'', ar_type = AR_PROCEDURE, nesting_level = 2,
                       members = []\<rparr>"])
     (simp_all add: top_record_def)

subsection \<open>The end-to-end scenario\<close>

text \<open>
  C3, as stated: the run of the example program emits exactly one output line, \<open>done\<close>
  and a newline. The interpreter writes nothing for a \<open>WRITELN\<close>: it hands a trace
  message to \<open>self.log\<close>, which prints only when the call-stack trace is switched on.
  Without the flag the run prints nothing at all.
\<close>

theorem C3_counterexample:
  "main 12 False example_source
     = Some (Inr \<lparr>call_stack = [], should_log_stack = False, printed = []\<rparr>)"
  by code_simp

text \<open>
  C3, amended. The example program parses without error and passes semantic analysis;
  its block turns the empty record of the program into one that maps \<open>x\<close> to 14; the
  \<open>WRITELN\<close> emits no output of its own: with the call-stack trace switched on the run
  prints five trace entries, among them the message \<^verbatim>\<open>WRITELN -> done \n \<close> of the
  statement and, before the record is popped, the stack with \<open>x = 14\<close>.
\<close>

theorem C3_example_run:
  "parse_text 12 example_source = Some (Inr (Program (PStr ''p'') example_block))
   \<and> analyze (Program (PStr ''p'') example_block)
       = Inr (Program (PStr ''p'') example_block, \<lparr>current_scope = None, procs = []\<rparr>)
   \<and> visit_Block 12 [] example_block
        \<lparr>call_stack = [\<lparr>ar_name = PStr ''p'', ar_type = AR_PROGRAM, nesting_level = 1,
                          members = []\<rparr>],
           should_log_stack = False, printed = []\<rparr>
       = Some (Inr \<lparr>call_stack = [\<lparr>ar_name = PStr ''p'', ar_type = AR_PROGRAM,
                                     nesting_level = 1, members = [(PStr ''x'', PInt 14)]\<rparr>],
                     should_log_stack = False, printed = []\<rparr>)
   \<and> main 12 True example_source
       = Some (Inr \<lparr>call_stack = [], should_log_stack = True,
            printed =
              [LogEnter AR_PROGRAM (PStr ''p''),
               LogCallStack
                [\<lparr>ar_name = PStr ''p'', ar_type = AR_PROGRAM, nesting_level = 1,
                    members = []\<rparr>],
               LogWrite WRITELN (PStr ''done''),
               LogLeave AR_PROGRAM (PStr ''p''),
               LogCallStack
                [\<lparr>ar_name = PStr ''p'', ar_type = AR_PROGRAM, nesting_level = 1,
                    members = [(PStr ''x'', PInt 14)]\<rparr>]]\<rparr>)"
  by code_simp

subsection \<open>Procedure call or assignment\<close>

text \<open>
  C10. When a statement begins with an identifier, the parser takes it for a procedure call
  exactly when the character the lexer stands on, right after the identifier, is \<open>(\<close>;
  otherwise it parses an assignment. So when that character is something else and the next
  token is a left parenthesis, as in \<open>foo (1)\<close>, the statement fails with the parse
  error \<open>Unexpected token\<close> on that parenthesis.
\<close>

theorem C10_call_needs_adjacent_paren:
  assumes "current_token p = Some t" and "ttype t = ID"
  shows "statement (Suc n) p =
           (if current_char (lexer p) = Some (CHR ''('') then proccall_statement n p
            else assignment_statement n p)
       \<and> (current_char (lexer p) \<noteq> Some (CHR ''('')
            \<and> get_next_token (lexer p) = Some (Inr (Some t', lx')) \<and> ttype t' = LPAREN
          \<longrightarrow> statement (Suc n) p = Some (Inl (ParserError UNEXPECTED_TOKEN t')))"
  using assms
  by (auto simp: with_token_def assignment_statement_def variable_def eat_def next_token_def
        bindR_def ret_def raise_def)

theorem C10_witness:
  "statement (Suc 4)
     \<lparr>lexer = \<lparr>quote_count = 0, input_text = ''foo (1)'', pos = 3,
                 current_char = Some CHR '' '', lineno = 1, column = 4\<rparr>,
        current_token = Some \<lparr>ttype = ID, tvalue = PStr ''foo'', tlineno = Some 1,
                                tcolumn = Some 1\<rparr>\<rparr>
   = Some (Inl (ParserError UNEXPECTED_TOKEN
                  \<lparr>ttype = LPAREN, tvalue = PStr ''('', tlineno = Some 1, tcolumn = Some 5\<rparr>))"
proof -
  let ?lx = "\<lparr>quote_count = 0, input_text = ''foo (1)'', pos = 3,
                 current_char = Some CHR '' '', lineno = 1, column = 4\<rparr>"
  let ?t = "\<lparr>ttype = ID, tvalue = PStr ''foo'', tlineno = Some 1, tcolumn = Some 1\<rparr>"
  let ?p = "\<lparr>lexer = ?lx, current_token = Some ?t\<rparr>"
  let ?t' = "\<lparr>ttype = LPAREN, tvalue = PStr ''('', tlineno = Some 1, tcolumn = Some 5\<rparr>"
  let ?lx' = "\<lparr>quote_count = 0, input_text = ''foo (1)'', pos = 5,
                 current_char = Some CHR ''1'', lineno = 1, column = 6\<rparr>"
  have nxt: "get_next_token ?lx = Some (Inr (Some ?t', ?lx'))"
    by code_simp
  have "current_token ?p = Some ?t" and "ttype ?t = ID" by simp_all
  from C10_call_needs_adjacent_paren [OF this, of 4 ?t' ?lx', THEN conjunct2] nxt
  show ?thesis by simp
qed

subsection \<open>The call stack\<close>




subsection \<open>Unterminated comments and strings\<close>

text \<open>
  C5. The claim is that a comment or a string that is not closed before the end of the
  input is a fatal lexical error. The lexer raises no error in either case. When no \<open>}\<close>
  follows the opening brace, \<open>skip_comment\<close> keeps advancing behind the end of the
  text and \<open>get_next_token\<close> never returns. When no quote follows the opening quote,
  \<open>string_builder\<close> returns \<open>None\<close> in place of a token.
\<close>

theorem C5_unterminated_comment_and_string:
  "(CHR ''}'' \<notin> set txt \<and> Lexer_init (CHR ''{'' # txt) = Inr lx \<longrightarrow> get_next_token lx = None)
 \<and> (CHR 0x27 \<notin> set txt \<and> Lexer_init (CHR 0x27 # txt) = Inr lx \<longrightarrow>
      (\<exists>lx'. get_next_token lx = Some (Inr (None, lx'))))"
proof (intro conjI impI)
  assume a: "CHR ''}'' \<notin> set txt \<and> Lexer_init (CHR ''{'' # txt) = Inr lx"
  then have ok: "lexer_ok lx" and d: "drop (pos lx) (input_text lx) = CHR ''{'' # txt"
    by (auto dest: Lexer_init_drop)
  from ok d have cc: "current_char lx = Some (CHR ''{'')" by (simp add: ok_current_char)
  have "drop (pos (advance lx)) (input_text (advance lx)) = txt"
    using d by (simp add: ok_drop_advance)
  with a have "skip_comment (advance lx) = None"
    by (intro skip_comment_None advance_ok) simp
  with cc show "get_next_token lx = None"
    by (simp add: get_next_token.simps [of lx] isspace_def)
next
  assume a: "CHR 0x27 \<notin> set txt \<and> Lexer_init (CHR 0x27 # txt) = Inr lx"
  then have ok: "lexer_ok lx" and d: "drop (pos lx) (input_text lx) = CHR 0x27 # txt"
    by (auto dest: Lexer_init_drop)
  from ok d have cc: "current_char lx = Some (CHR 0x27)" by (simp add: ok_current_char)
  let ?lx1 = "(advance lx)\<lparr>quote_count := 1\<rparr>"
  have ok1: "lexer_ok ?lx1" using advance_ok [of lx] by (simp add: lexer_ok_def)
  have d1: "drop (pos ?lx1) (input_text ?lx1) = txt"
    using d ok_drop_advance [of lx] by simp
  obtain res lx2 where tw: "take_while (\<lambda>c. c \<noteq> CHR 0x27) [] ?lx1 = (res, lx2)"
    by (cases "take_while (\<lambda>c. c \<noteq> CHR 0x27) [] ?lx1")
  have all: "takeWhile (\<lambda>c. c \<noteq> CHR 0x27) txt = txt"
    using a by (auto simp: takeWhile_eq_all_conv)
  from take_while_ok [OF ok1 tw]
  have ok2: "lexer_ok lx2" and t2: "input_text lx2 = input_text ?lx1"
    and "pos lx2 = pos ?lx1
           + length (takeWhile (\<lambda>c. c \<noteq> CHR 0x27) (drop (pos ?lx1) (input_text ?lx1)))"
    by blast+
  then have p2: "pos lx2 = pos ?lx1 + length txt"
    unfolding d1 all by simp
  have "drop (pos lx2) (input_text lx2) = []"
    using d1 t2 p2 by (metis add.commute drop_all drop_drop order_refl)
  with ok2 have "current_char lx2 = None" by (simp add: ok_current_char)
  with tw have "string_builder ?lx1 = (None, lx2)"
    by (simp add: string_builder_def)
  with cc show "\<exists>lx'. get_next_token lx = Some (Inr (None, lx'))"
    by (simp add: get_next_token.simps [of lx] isspace_def)
qed

theorem C5_witness:
  "get_next_token \<lparr>quote_count = 0, input_text = ''{abc'', pos = 0,
                    current_char = Some (CHR ''{''), lineno = 1, column = 1\<rparr> = None
 \<and> (\<exists>lx'. get_next_token \<lparr>quote_count = 0, input_text = CHR 0x27 # ''abc'', pos = 0,
                    current_char = Some (CHR 0x27), lineno = 1, column = 1\<rparr>
            = Some (Inr (None, lx')))"
  using C5_unterminated_comment_and_string
          [of "''abc''" "\<lparr>quote_count = 0, input_text = ''{abc'', pos = 0,
                    current_char = Some (CHR ''{''), lineno = 1, column = 1\<rparr>"]
        C5_unterminated_comment_and_string
          [of "''abc''" "\<lparr>quote_count = 0, input_text = CHR 0x27 # ''abc'', pos = 0,
                    current_char = Some (CHR 0x27), lineno = 1, column = 1\<rparr>"]
  by (simp add: Lexer_init_def)

subsection \<open>Integer literals and dots\<close>




end
